theory Spec2Isabelle
  imports Complex_Main
begin

section \<open>JavaScript strings\<close>

text \<open>
  The import pipeline of the finance tracker lives in two files,
  \<^verbatim>\<open>src/services/columnMapper.ts\<close> and \<^verbatim>\<open>src/services/csvParser.ts\<close>.
  Strings are modelled as HOL strings; the model covers ASCII text, where a JavaScript
  code unit and a HOL character coincide.
\<close>

definition LF :: char where
  "LF = CHR 0x0A"

definition DQUOTE :: char where
  "DQUOTE = CHR 0x22"

definition BACKSLASH :: char where
  "BACKSLASH = CHR 0x5C"

text \<open>White space as \<^verbatim>\<open>String.prototype.trim\<close> and the regular expression class
  \<^verbatim>\<open>\s\<close> see it, within ASCII: tab, line feed, vertical tab, form feed, carriage return,
  space.\<close>

definition isSpace :: "char \<Rightarrow> bool" where
  "isSpace c = (c \<in> set [CHR 0x09, CHR 0x0A, CHR 0x0B, CHR 0x0C, CHR 0x0D, CHR 0x20])"

definition trimStart :: "string \<Rightarrow> string" where
  "trimStart s = dropWhile isSpace s"

definition trim :: "string \<Rightarrow> string" where
  "trim s = rev (dropWhile isSpace (rev (dropWhile isSpace s)))"

definition lowerChar :: "char \<Rightarrow> char" where
  "lowerChar c =
     (let n = (of_char c :: nat) in if 65 \<le> n \<and> n \<le> 90 then char_of (n + 32) else c)"

definition toLowerCase :: "string \<Rightarrow> string" where
  "toLowerCase s = map lowerChar s"

fun startsWith :: "string \<Rightarrow> string \<Rightarrow> bool" where
  "startsWith s [] = True"
| "startsWith [] (p # ps) = False"
| "startsWith (c # cs) (p # ps) = (c = p \<and> startsWith cs ps)"

text \<open>\<^verbatim>\<open>s.includes(sub)\<close>: \<open>sub\<close> occurs in \<open>s\<close> as a contiguous run.\<close>

fun str_includes :: "string \<Rightarrow> string \<Rightarrow> bool" where
  "str_includes [] sub = (sub = [])"
| "str_includes (c # cs) sub = (startsWith (c # cs) sub \<or> str_includes cs sub)"

text \<open>\<^verbatim>\<open>s.split(sep)\<close> for a one-character separator; the result is never empty.\<close>

fun splitOn :: "char \<Rightarrow> string \<Rightarrow> string \<Rightarrow> string list" where
  "splitOn sep cur [] = [cur]"
| "splitOn sep cur (c # cs) =
     (if c = sep then cur # splitOn sep [] cs else splitOn sep (cur @ [c]) cs)"

definition split :: "char \<Rightarrow> string \<Rightarrow> string list" where
  "split sep s = splitOn sep [] s"

text \<open>\<^verbatim>\<open>xs.join(sep)\<close>.\<close>

fun join :: "string \<Rightarrow> string list \<Rightarrow> string" where
  "join sep [] = []"
| "join sep [x] = x"
| "join sep (x # y # ys) = x @ sep @ join sep (y # ys)"

text \<open>\<^verbatim>\<open>s.replace(/[...]+/g, ' ')\<close>: every maximal run of characters of the class
  becomes one space.\<close>

fun collapseRuns :: "(char \<Rightarrow> bool) \<Rightarrow> bool \<Rightarrow> string \<Rightarrow> string" where
  "collapseRuns cls inRun [] = []"
| "collapseRuns cls inRun (c # cs) =
     (if cls c then (if inRun then collapseRuns cls True cs
                     else CHR '' '' # collapseRuns cls True cs)
      else c # collapseRuns cls False cs)"

text \<open>\<^verbatim>\<open>s.replace(/[...]/g, '')\<close>: every character of the class is deleted.\<close>

definition deleteChars :: "(char \<Rightarrow> bool) \<Rightarrow> string \<Rightarrow> string" where
  "deleteChars cls s = filter (\<lambda>c. \<not> cls c) s"

section \<open>Column mapper\<close>

datatype ColumnType =
  CType | CDate | CDescription | CAmount | CDebit | CCredit | CCategory
  | CAccount | CFrequency | CName | CBalance | CTotal | CIgnore

datatype Format = BankStatement | FinancialStatement | Simple | Unknown

text \<open>A \<^verbatim>\<open>ColumnMapping\<close> is an object with integer keys; \<^verbatim>\<open>Object.entries\<close> and
  \<^verbatim>\<open>Object.values\<close> visit integer keys in ascending order. The model keeps the list of
  entries in that order.\<close>

type_synonym ColumnMapping = "(nat \<times> ColumnType) list"

text \<open>The confidence of an empty header list is \<^verbatim>\<open>Math.round(0 / 0 * 100)\<close>, which is
  \<^verbatim>\<open>NaN\<close>: \<open>None\<close> in the model.\<close>

record DetectedColumns =
  mapping :: ColumnMapping
  confidence :: "int option"
  detectedFormat :: Format
  suggestions :: "(nat \<times> ColumnType list) list"

record Detection =
  d_type :: ColumnType
  d_confidence :: int
  d_suggestions :: "ColumnType list"

text \<open>The catalogue in the order \<^verbatim>\<open>Object.entries(COLUMN_ALIASES)\<close> visits it.\<close>

definition COLUMN_ALIASES :: "(ColumnType \<times> string list) list" where
  "COLUMN_ALIASES =
    [(CType, [''type'', ''txtype'', ''transaction type'', ''kind'', ''category type'']),
     (CDate, [''date'', ''transaction date'', ''posting date'', ''date posted'',
              ''trans date'', ''date of transaction'']),
     (CDescription, [''description'', ''memo'', ''detail'', ''transaction description'',
                     ''note'', ''narrative'', ''details'', ''name'']),
     (CAmount, [''amount'', ''amt'', ''transaction amount'', ''value'', ''total'', ''sum'']),
     (CDebit, [''debit'', ''debit amount'', ''withdrawal'', ''debit amt'', ''expenses'',
               ''out'']),
     (CCredit, [''credit'', ''credit amount'', ''deposit'', ''credit amt'', ''income'',
                ''in'']),
     (CCategory, [''category'', ''cat'', ''expense category'', ''income category'',
                  ''type'']),
     (CAccount, [''account'', ''account name'', ''account #'', ''account number'',
                 ''acct'']),
     (CFrequency, [''frequency'', ''freq'', ''recurring'', ''period'', ''cadence'']),
     (CName, [''name'', ''account name'', ''item name'', ''description'', ''title'']),
     (CBalance, [''balance'', ''running balance'', ''balance after'', ''account balance'',
                 ''bal'']),
     (CTotal, [''total'', ''subtotal'', ''sum'', ''amount total'']),
     (CIgnore, [])]"

definition aliasesOf :: "ColumnType \<Rightarrow> string list" where
  "aliasesOf t = (case map_of COLUMN_ALIASES t of Some as \<Rightarrow> as | None \<Rightarrow> [])"

definition isSeparator :: "char \<Rightarrow> bool" where
  "isSeparator c =
     (isSpace c \<or> c = CHR ''_'' \<or> c = CHR ''-'' \<or> c = CHR ''/'' \<or> c = BACKSLASH)"

definition normalizeHeader :: "string \<Rightarrow> string" where
  "normalizeHeader header =
     trim (collapseRuns isSpace False
             (collapseRuns isSeparator False (trim (toLowerCase header))))"

text \<open>
  \<^verbatim>\<open>isSimilar(str1, str2)\<close> with the default threshold 0.7. The last line compares
  \<^verbatim>\<open>commonChars / longer.length >= 0.7\<close>; for strings shorter than \<open>10^14\<close>
  characters the floating-point comparison agrees with \<open>7 * length \<le> 10 * commonChars\<close>.
\<close>

definition isSimilar :: "string \<Rightarrow> string \<Rightarrow> bool" where
  "isSimilar str1 str2 =
     (if str1 = [] \<or> str2 = [] then False
      else if str_includes str1 str2 \<or> str_includes str2 str1 then True
      else
        (let longer = (if length str1 > length str2 then str1 else str2);
             shorter = (if length str1 > length str2 then str2 else str1);
             commonChars = length (filter (\<lambda>c. str_includes longer [c]) shorter)
         in 7 * length longer \<le> 10 * commonChars))"

text \<open>The callback of the \<^verbatim>\<open>reduce\<close> in \<^verbatim>\<open>detectColumnType\<close>.\<close>

definition addAliasScore :: "string \<Rightarrow> int \<Rightarrow> string \<Rightarrow> int" where
  "addAliasScore normalized score alias =
     (if alias = normalized then score + 100
      else if str_includes normalized alias then score + 80
      else if str_includes alias normalized then score + 60
      else if isSimilar normalized alias then score + 40
      else score)"

definition matchScore :: "string \<Rightarrow> string list \<Rightarrow> int" where
  "matchScore normalized aliases = foldl (addAliasScore normalized) 0 aliases"

text \<open>The score of one alias, as the callback of \<^verbatim>\<open>scoreSuggestion\<close> computes it.\<close>

definition aliasScore :: "string \<Rightarrow> string \<Rightarrow> int" where
  "aliasScore normalized alias =
     (if normalized = alias then 100
      else if str_includes normalized alias then 80
      else if str_includes alias normalized then 60
      else if isSimilar normalized alias then 40
      else 0)"

text \<open>\<^verbatim>\<open>Math.max(...xs)\<close>; with no argument it is \<^verbatim>\<open>-Infinity\<close>, here \<open>None\<close>.\<close>

definition Math_max :: "int list \<Rightarrow> int option" where
  "Math_max xs = (case xs of [] \<Rightarrow> None | y # ys \<Rightarrow> Some (fold max ys y))"

definition scoreSuggestion :: "string \<Rightarrow> ColumnType \<Rightarrow> int option" where
  "scoreSuggestion normalized columnType =
     Math_max (map (aliasScore normalized) (aliasesOf columnType))"

text \<open>\<open>scoreLess a b\<close>: the comparator \<^verbatim>\<open>score(b) - score(a)\<close> is positive, so \<open>a\<close>
  goes behind \<open>b\<close>.\<close>

definition scoreLess :: "int option \<Rightarrow> int option \<Rightarrow> bool" where
  "scoreLess a b =
     (case b of None \<Rightarrow> False
      | Some y \<Rightarrow> (case a of None \<Rightarrow> True | Some x \<Rightarrow> x < y))"

text \<open>\<^verbatim>\<open>Array.prototype.sort\<close> is stable; a stable insertion sort, best score first.\<close>

fun insertSuggestion :: "string \<Rightarrow> ColumnType \<Rightarrow> ColumnType list \<Rightarrow> ColumnType list" where
  "insertSuggestion normalized t [] = [t]"
| "insertSuggestion normalized t (u # us) =
     (if scoreLess (scoreSuggestion normalized t) (scoreSuggestion normalized u)
      then u # insertSuggestion normalized t us
      else t # u # us)"

definition sortSuggestions :: "string \<Rightarrow> ColumnType list \<Rightarrow> ColumnType list" where
  "sortSuggestions normalized ts = foldr (insertSuggestion normalized) ts []"

text \<open>The loop of \<^verbatim>\<open>detectColumnType\<close> over the catalogue, with its early return on an
  exact match; the accumulators are \<open>suggs\<close>, \<open>bestMatch\<close> and \<open>bestScore\<close>.\<close>

fun scanTypes ::
  "string \<Rightarrow> (ColumnType \<times> string list) list \<Rightarrow> ColumnType list \<Rightarrow> ColumnType \<Rightarrow> int
   \<Rightarrow> Detection" where
  "scanTypes normalized [] suggs bestMatch bestScore =
     (let topSuggestions = take 3 (sortSuggestions normalized suggs)
      in \<lparr>d_type = bestMatch,
          d_confidence = min bestScore 100,
          d_suggestions = (if topSuggestions \<noteq> [] then topSuggestions else [bestMatch])\<rparr>)"
| "scanTypes normalized ((cType, aliases) # rest) suggs bestMatch bestScore =
     (if list_ex (\<lambda>alias. normalized = alias) aliases
      then \<lparr>d_type = cType, d_confidence = 100, d_suggestions = [cType]\<rparr>
      else if matchScore normalized aliases > 0
      then (if matchScore normalized aliases > bestScore
            then scanTypes normalized rest (suggs @ [cType]) cType
                   (matchScore normalized aliases)
            else scanTypes normalized rest (suggs @ [cType]) bestMatch bestScore)
      else scanTypes normalized rest suggs bestMatch bestScore)"

definition detectColumnType :: "string \<Rightarrow> Detection" where
  "detectColumnType header = scanTypes (normalizeHeader header) COLUMN_ALIASES [] CIgnore 0"

definition detectFileFormat :: "ColumnMapping \<Rightarrow> string list \<Rightarrow> Format" where
  "detectFileFormat m hs =
     (let types = map snd m;
          headerText = toLowerCase (join '' '' hs);
          hasDate = (CDate \<in> set types);
          hasDescription = (CDescription \<in> set types);
          hasAmount = (CAmount \<in> set types \<or> CDebit \<in> set types \<or> CCredit \<in> set types);
          hasType = (CType \<in> set types \<or> CCategory \<in> set types);
          hasName = (CName \<in> set types \<or> CDescription \<in> set types)
      in if hasDate \<and> hasDescription \<and> hasAmount then BankStatement
         else if str_includes headerText ''jan'' \<or> str_includes headerText ''jan 2''
                 \<or> (str_includes headerText ''total'' \<and> CTotal \<in> set types)
         then FinancialStatement
         else if (hasType \<or> hasName) \<and> hasAmount then Simple
         else Unknown)"

text \<open>\<^verbatim>\<open>Math.round\<close> rounds to the nearest integer, a half upwards.\<close>

definition Math_round :: "rat \<Rightarrow> int" where
  "Math_round x = \<lfloor>x + 1 / 2\<rfloor>"

definition detectColumns :: "string list \<Rightarrow> DetectedColumns" where
  "detectColumns hs =
     (let detected = map detectColumnType hs;
          m = zip [0 ..< length hs] (map d_type detected);
          totalConfidence = sum_list (map d_confidence detected);
          averageConfidence =
            (if hs = [] then None
             else Some (Math_round ((of_int totalConfidence / of_nat (length hs)) * 100)))
      in \<lparr>mapping = m,
          confidence = averageConfidence,
          detectedFormat = detectFileFormat m hs,
          suggestions = zip [0 ..< length hs] (map d_suggestions detected)\<rparr>)"

section \<open>Rows and cells\<close>

text \<open>A row object (\<^verbatim>\<open>Record<string, string>\<close>) keeps its keys in insertion order: an
  association list, where writing an existing key keeps the key's place. Reading a key
  that is absent gives \<^verbatim>\<open>undefined\<close>, here \<open>None\<close>.\<close>

type_synonym Row = "(string \<times> string) list"

fun setField :: "string \<Rightarrow> string \<Rightarrow> Row \<Rightarrow> Row" where
  "setField k v [] = [(k, v)]"
| "setField k v ((k', v') # r) = (if k' = k then (k, v) # r else (k', v') # setField k v r)"

definition getField :: "Row \<Rightarrow> string \<Rightarrow> string option" where
  "getField r k = map_of r k"

text \<open>\<^verbatim>\<open>xs[i]\<close>: \<^verbatim>\<open>undefined\<close> past the end of the array.\<close>

definition arrayAt :: "'a list \<Rightarrow> nat \<Rightarrow> 'a option" where
  "arrayAt xs i = (if i < length xs then Some (xs ! i) else None)"

text \<open>Truthiness of a string that may be \<^verbatim>\<open>undefined\<close>, and \<^verbatim>\<open>x || d\<close>.\<close>

definition truthy :: "string option \<Rightarrow> bool" where
  "truthy x = (case x of None \<Rightarrow> False | Some s \<Rightarrow> s \<noteq> [])"

definition orElse :: "string option \<Rightarrow> string \<Rightarrow> string" where
  "orElse x d = (case x of None \<Rightarrow> d | Some s \<Rightarrow> if s \<noteq> [] then s else d)"

text \<open>The body of the \<^verbatim>\<open>forEach\<close> in \<^verbatim>\<open>mapRow\<close>, for one entry of the mapping.\<close>

definition mapCell :: "string list \<Rightarrow> Row \<Rightarrow> nat \<times> ColumnType \<Rightarrow> Row" where
  "mapCell rawRow mappedRow entry =
     (let index = fst entry;
          v = orElse (arrayAt rawRow index) []
      in case snd entry of
           CType \<Rightarrow> setField ''Type'' v mappedRow
         | CDate \<Rightarrow> setField ''Date'' v mappedRow
         | CDescription \<Rightarrow>
             setField ''Name''
               (if v \<noteq> [] then v else orElse (getField mappedRow ''Name'') []) mappedRow
         | CName \<Rightarrow>
             setField ''Name''
               (if v \<noteq> [] then v else orElse (getField mappedRow ''Name'') []) mappedRow
         | CAmount \<Rightarrow> setField ''Amount'' v mappedRow
         | CDebit \<Rightarrow> setField ''Debit'' v mappedRow
         | CCredit \<Rightarrow> setField ''Credit'' v mappedRow
         | CCategory \<Rightarrow> setField ''Category'' v mappedRow
         | CAccount \<Rightarrow> setField ''Account'' v mappedRow
         | CFrequency \<Rightarrow> setField ''Frequency'' v mappedRow
         | CBalance \<Rightarrow> setField ''Balance'' v mappedRow
         | CTotal \<Rightarrow> setField ''Total'' v mappedRow
         | CIgnore \<Rightarrow> mappedRow)"

definition mapRow :: "string list \<Rightarrow> ColumnMapping \<Rightarrow> string list \<Rightarrow> Row" where
  "mapRow rawRow m hs = foldl (mapCell rawRow) [] m"

section \<open>Numbers\<close>

text \<open>
  A JavaScript number is an IEEE 754 double: \<^verbatim>\<open>NaN\<close>, an infinity (\<open>True\<close> for the
  negative one) or a finite value \<open>\<plusminus> m * 2^e\<close> (\<open>True\<close> for a minus sign). A finite
  value is kept in its canonical form: zero is \<open>m = 0, e = 0\<close>, a normal number has
  \<open>2^52 \<le> m < 2^53\<close> and \<open>- 1074 \<le> e \<le> 971\<close>, a subnormal one has \<open>0 < m < 2^52\<close> and
  \<open>e = - 1074\<close>.
\<close>

datatype number = NaN | Infinity bool | Fin bool int int

definition isNaN :: "number \<Rightarrow> bool" where
  "isNaN x = (x = NaN)"

text \<open>\<^verbatim>\<open>x > 0\<close>.\<close>

definition positive :: "number \<Rightarrow> bool" where
  "positive x =
     (case x of NaN \<Rightarrow> False | Infinity neg \<Rightarrow> \<not> neg | Fin neg m e \<Rightarrow> \<not> neg \<and> 0 < m)"

text \<open>\<open>2^k\<close> and \<open>10^k\<close> for an integer \<open>k\<close>, 1 when \<open>k\<close> is negative: a power with a
  negative exponent is moved to the other side of a fraction.\<close>

definition pow2 :: "int \<Rightarrow> int" where
  "pow2 k = 2 ^ nat k"

definition pow10 :: "int \<Rightarrow> int" where
  "pow10 k = 10 ^ nat k"

text \<open>The number of binary digits of a positive integer.\<close>

function bitlen :: "int \<Rightarrow> int" where
  "bitlen n = (if n \<le> 0 then 0 else 1 + bitlen (n div 2))"
  by pat_completeness auto
termination
  by (relation "measure nat") auto

declare bitlen.simps [simp del]

text \<open>The integer nearest to \<open>a / b\<close> for \<open>0 \<le> a\<close> and \<open>0 < b\<close>, a tie going to the even
  one.\<close>

definition roundHalfEven :: "int \<Rightarrow> int \<Rightarrow> int" where
  "roundHalfEven a b =
     (let q = a div b; r = a mod b
      in if 2 * r < b then q
         else if b < 2 * r then q + 1
         else if even q then q else q + 1)"

text \<open>
  The double nearest to the decimal \<open>\<plusminus> m10 * 10^e10\<close> (round to nearest, ties to even),
  as the conversion of a numeric literal yields it. With \<open>num / den\<close> the decimal and
  \<open>2^l \<le> num / den < 2^(l + 1)\<close>, the mantissa is \<open>num / den / 2^e2\<close> rounded, for
  \<open>e2 = l - 52\<close>, or \<open>- 1074\<close> in the subnormal range. A magnitude that rounds beyond the
  largest double is an infinity, one that rounds to nothing is zero.
\<close>

definition toDouble :: "bool \<Rightarrow> int \<Rightarrow> int \<Rightarrow> number" where
  "toDouble neg m10 e10 =
     (if m10 = 0 then Fin neg 0 0
      else
        (let num = m10 * pow10 e10;
             den = pow10 (- e10);
             c = bitlen num - bitlen den;
             l = (if den * pow2 c \<le> num * pow2 (- c) then c else c - 1);
             e2 = max (l - 52) (- 1074);
             mant = roundHalfEven (num * pow2 (- e2)) (den * pow2 e2);
             mant' = (if mant = 2 ^ 53 then 2 ^ 52 else mant);
             e2' = (if mant = 2 ^ 53 then e2 + 1 else e2)
         in if mant' = 0 then Fin neg 0 0
            else if 971 < e2' then Infinity neg
            else Fin neg mant' e2'))"

definition isDigit :: "char \<Rightarrow> bool" where
  "isDigit c = (48 \<le> (of_char c :: nat) \<and> (of_char c :: nat) \<le> 57)"

definition digitsVal :: "string \<Rightarrow> int" where
  "digitsVal ds = foldl (\<lambda>n c. 10 * n + ((of_char c :: int) - 48)) 0 ds"

definition signOf :: "string \<Rightarrow> bool \<times> string" where
  "signOf s =
     (case s of [] \<Rightarrow> (False, [])
      | c # r \<Rightarrow> if c = CHR ''-'' then (True, r)
                 else if c = CHR ''+'' then (False, r) else (False, s))"

text \<open>The value of an exponent part \<^verbatim>\<open>e\<close>, sign, digits at the head of the string;
  0 where there is none.\<close>

definition exponentPart :: "string \<Rightarrow> int" where
  "exponentPart s =
     (case s of [] \<Rightarrow> 0
      | c # r \<Rightarrow>
          if c = CHR ''e'' \<or> c = CHR ''E''
          then (let (neg, r') = signOf r; ds = takeWhile isDigit r'
                in if ds = [] then 0
                   else if neg then - digitsVal ds else digitsVal ds)
          else 0)"

text \<open>\<^verbatim>\<open>parseFloat\<close>: leading white space is skipped, then the longest prefix that is a
  decimal literal is read and rounded to a double; \<^verbatim>\<open>NaN\<close> when there is none.\<close>

definition parseFloat :: "string \<Rightarrow> number" where
  "parseFloat s =
     (let (neg, u) = signOf (trimStart s)
      in if startsWith u ''Infinity'' then Infinity neg
         else
           (let ip = takeWhile isDigit u;
                r1 = dropWhile isDigit u;
                (fp, r2) = (case r1 of [] \<Rightarrow> ([], r1)
                            | c # r \<Rightarrow> if c = CHR ''.''
                                       then (takeWhile isDigit r, dropWhile isDigit r)
                                       else ([], r1))
            in if ip = [] \<and> fp = [] then NaN
               else toDouble neg (digitsVal (ip @ fp)) (exponentPart r2 - int (length fp))))"

text \<open>The decimal digits of a natural number.\<close>

function natDigits :: "int \<Rightarrow> string" where
  "natDigits n =
     (if n < 10 then [char_of (48 + n)] else natDigits (n div 10) @ [char_of (48 + n mod 10)])"
  by pat_completeness auto
termination
  by (relation "measure nat") auto

declare natDigits.simps [simp del]

definition stripZeros :: "string \<Rightarrow> string" where
  "stripZeros ds = rev (dropWhile (\<lambda>c. c = CHR ''0'') (rev ds))"

text \<open>The layout of \<^verbatim>\<open>Number::toString\<close> for the positive decimal \<open>m * 10^e\<close>: with \<open>k\<close>
  significant digits \<open>ds\<close> and the decimal point after the \<open>n\<close>-th of them.\<close>

definition decimalToString :: "int \<Rightarrow> int \<Rightarrow> string" where
  "decimalToString m e =
     (let n = int (length (natDigits m)) + e;
          ds = stripZeros (natDigits m);
          k = int (length ds)
      in if k \<le> n \<and> n \<le> 21 then ds @ replicate (nat (n - k)) (CHR ''0'')
         else if 0 < n \<and> n \<le> 21 then take (nat n) ds @ ''.'' @ drop (nat n) ds
         else if - 6 < n \<and> n \<le> 0 then ''0.'' @ replicate (nat (- n)) (CHR ''0'') @ ds
         else
           (let ex = n - 1;
                suffix = ''e'' @ (if ex < 0 then ''-'' else ''+'') @ natDigits \<bar>ex\<bar>
            in if k = 1 then ds @ suffix else take 1 ds @ ''.'' @ drop 1 ds @ suffix))"

text \<open>The integer \<open>n\<close> with \<open>10^(n - 1) \<le> num / den < 10^n\<close>, for a positive fraction.\<close>

definition decimalExponent :: "int \<Rightarrow> int \<Rightarrow> int" where
  "decimalExponent num den =
     (if den \<le> num then int (length (natDigits (num div den)))
      else 1 - int (length (natDigits ((den - 1) div num))))"

text \<open>
  \<^verbatim>\<open>Number::toString\<close> prints the decimal \<open>s * 10^(n - k)\<close> of the fewest digits \<open>k\<close> whose
  double is the number, and of several such the one nearest to the number (the even \<open>s\<close>
  on a tie). \<open>digitsOfLength m e k\<close> is that decimal, as the pair of \<open>s\<close> and \<open>n - k\<close>, for
  the double \<open>m * 2^e\<close> and a given \<open>k\<close>, if there is one: only the two decimals of \<open>k\<close>
  digits around the number can qualify.
\<close>

definition digitsOfLength :: "int \<Rightarrow> int \<Rightarrow> int \<Rightarrow> (int \<times> int) option" where
  "digitsOfLength m e k =
     (let num = m * pow2 e;
          den = pow2 (- e);
          p = decimalExponent num den - k;
          a = num * pow10 (- p);
          b = den * pow10 p;
          s = a div b;
          r = a mod b;
          lowOk = (toDouble False s p = Fin False m e);
          highOk = (toDouble False (s + 1) p = Fin False m e)
      in if lowOk \<and> highOk
         then (if 2 * r < b then Some (s, p)
               else if b < 2 * r then Some (s + 1, p)
               else if even s then Some (s, p) else Some (s + 1, p))
         else if lowOk then Some (s, p)
         else if highOk then Some (s + 1, p)
         else None)"

text \<open>The search for the fewest digits. Seventeen digits always suffice; past them the
  function answers the exact decimal expansion of the double.\<close>

fun shortestDigits :: "int \<Rightarrow> int \<Rightarrow> int list \<Rightarrow> int \<times> int" where
  "shortestDigits m e [] = (if 0 \<le> e then (m * pow2 e, 0) else (m * 5 ^ nat (- e), e))"
| "shortestDigits m e (k # ks) =
     (case digitsOfLength m e k of Some d \<Rightarrow> d | None \<Rightarrow> shortestDigits m e ks)"

definition String :: "number \<Rightarrow> string" where
  "String x =
     (case x of
        NaN \<Rightarrow> ''NaN''
      | Infinity neg \<Rightarrow> (if neg then ''-Infinity'' else ''Infinity'')
      | Fin neg m e \<Rightarrow>
          if m = 0 then ''0''
          else (let (s, p) = shortestDigits m e [1, 2, 3, 4, 5, 6, 7, 8, 9, 10, 11, 12, 13,
                                                   14, 15, 16, 17]
                in (if neg then ''-'' else []) @ decimalToString s p))"

section \<open>CSV parser\<close>

datatype error = Error string

text \<open>\<open>detectedColumns\<close> and \<open>columnMappingConfidence\<close> are optional fields: \<open>None\<close> when
  the parser leaves them out.\<close>

record ParsedCSVData =
  headers :: "string list"
  rows :: "Row list"
  rawData :: "string list list"
  format :: Format
  detectedColumns :: "DetectedColumns option"
  columnMappingConfidence :: "int option option"

text \<open>The loop of \<^verbatim>\<open>parseCSVLine\<close> over the characters of the line; on a doubled quote
  inside quotes it skips the second one.\<close>

fun parseCSVLineLoop :: "string \<Rightarrow> string \<Rightarrow> bool \<Rightarrow> string list \<Rightarrow> string list" where
  "parseCSVLineLoop [] current insideQuotes result = result @ [trim current]"
| "parseCSVLineLoop [c] current insideQuotes result =
     (if c = DQUOTE then parseCSVLineLoop [] current (\<not> insideQuotes) result
      else if c = CHR '','' \<and> \<not> insideQuotes
      then parseCSVLineLoop [] [] insideQuotes (result @ [trim current])
      else parseCSVLineLoop [] (current @ [c]) insideQuotes result)"
| "parseCSVLineLoop (c # nextChar # cs) current insideQuotes result =
     (if c = DQUOTE
      then (if insideQuotes \<and> nextChar = DQUOTE
            then parseCSVLineLoop cs (current @ [DQUOTE]) insideQuotes result
            else parseCSVLineLoop (nextChar # cs) current (\<not> insideQuotes) result)
      else if c = CHR '','' \<and> \<not> insideQuotes
      then parseCSVLineLoop (nextChar # cs) [] insideQuotes (result @ [trim current])
      else parseCSVLineLoop (nextChar # cs) (current @ [c]) insideQuotes result)"

definition parseCSVLine :: "string \<Rightarrow> string list" where
  "parseCSVLine line = parseCSVLineLoop line [] False []"

text \<open>The loop of \<^verbatim>\<open>parseFlexibleCSV\<close> over the data rows; it carries \<open>rows\<close> and
  \<open>rawData\<close>.\<close>

fun flexibleLoop ::
  "string list list \<Rightarrow> ColumnMapping \<Rightarrow> string list \<Rightarrow> Row list \<times> string list list
   \<Rightarrow> Row list \<times> string list list" where
  "flexibleLoop [] m hs acc = acc"
| "flexibleLoop (rawRow # rest) m hs (rs, raw) =
     (if list_all (\<lambda>cell. cell = []) rawRow then flexibleLoop rest m hs (rs, raw)
      else if \<not> list_ex (\<lambda>v. v \<noteq> [] \<and> trim v \<noteq> []) (map snd (mapRow rawRow m hs))
      then flexibleLoop rest m hs (rs, raw)
      else flexibleLoop rest m hs (rs @ [mapRow rawRow m hs], raw @ [rawRow]))"

definition parseFlexibleCSV ::
  "string list list \<Rightarrow> string list \<Rightarrow> DetectedColumns \<Rightarrow> ParsedCSVData" where
  "parseFlexibleCSV csvLines hs dc =
     (let (rs, raw) = flexibleLoop (drop 1 csvLines) (mapping dc) hs ([], [hs])
      in \<lparr>headers = (case rs of [] \<Rightarrow> hs | r # _ \<Rightarrow> map fst r),
          rows = rs,
          rawData = raw,
          format = (if detectedFormat dc = BankStatement then BankStatement else Simple),
          detectedColumns = Some dc,
          columnMappingConfidence = Some (confidence dc)\<rparr>)"

text \<open>The part of the loop body of \<^verbatim>\<open>parseBankStatementCSV\<close> that derives type and
  amount from the debit and credit fields.\<close>

definition debitCredit :: "Row \<Rightarrow> Row" where
  "debitCredit mappedRow =
     (if truthy (getField mappedRow ''Debit'') \<or> truthy (getField mappedRow ''Credit'')
      then
        (let debit = parseFloat (orElse (getField mappedRow ''Debit'') ''0'');
             credit = parseFloat (orElse (getField mappedRow ''Credit'') ''0'')
         in if positive debit
            then setField ''Amount'' (String debit) (setField ''Type'' ''Expense'' mappedRow)
            else if positive credit
            then setField ''Amount'' (String credit) (setField ''Type'' ''Income'' mappedRow)
            else mappedRow)
      else mappedRow)"

text \<open>\<^verbatim>\<open>if (!row[k]) row[k] = d\<close>.\<close>

definition setDefault :: "string \<Rightarrow> string \<Rightarrow> Row \<Rightarrow> Row" where
  "setDefault k d r = (if truthy (getField r k) then r else setField k d r)"

definition bankDefaults :: "Row \<Rightarrow> Row" where
  "bankDefaults r =
     setDefault ''Name'' ''Transaction''
       (setDefault ''Category'' ''Other''
          (setDefault ''Frequency'' ''one-time''
             (setDefault ''Type'' ''Expense'' r)))"

definition bankRow :: "string list \<Rightarrow> ColumnMapping \<Rightarrow> string list \<Rightarrow> Row" where
  "bankRow rawRow m hs = bankDefaults (debitCredit (mapRow rawRow m hs))"

fun bankLoop ::
  "string list list \<Rightarrow> ColumnMapping \<Rightarrow> string list \<Rightarrow> Row list \<times> string list list
   \<Rightarrow> Row list \<times> string list list" where
  "bankLoop [] m hs acc = acc"
| "bankLoop (rawRow # rest) m hs (rs, raw) =
     (if list_all (\<lambda>cell. cell = []) rawRow then bankLoop rest m hs (rs, raw)
      else bankLoop rest m hs (rs @ [bankRow rawRow m hs], raw @ [rawRow]))"

definition parseBankStatementCSV ::
  "string list list \<Rightarrow> string list \<Rightarrow> DetectedColumns \<Rightarrow> ParsedCSVData" where
  "parseBankStatementCSV csvLines hs dc =
     (let (rs, raw) = bankLoop (drop 1 csvLines) (mapping dc) hs ([], [hs])
      in \<lparr>headers = [''Type'', ''Date'', ''Name'', ''Amount'', ''Frequency'', ''Category''],
          rows = rs,
          rawData = raw,
          format = BankStatement,
          detectedColumns = Some dc,
          columnMappingConfidence = Some (confidence dc)\<rparr>)"

text \<open>\<^verbatim>\<open>xs.findIndex(p)\<close>; \<open>None\<close> stands for the result \<open>-1\<close>.\<close>

fun findIndex :: "('a \<Rightarrow> bool) \<Rightarrow> 'a list \<Rightarrow> nat option" where
  "findIndex p [] = None"
| "findIndex p (x # xs) =
     (if p x then Some 0 else map_option Suc (findIndex p xs))"

datatype Section = Income | Expense

text \<open>The summary rows: \<^verbatim>\<open>/^total\s|^noi|^net operating|^operating income|^operating expense/i\<close>.\<close>

definition isSummaryRow :: "string \<Rightarrow> bool" where
  "isSummaryRow trimmedName =
     (let l = toLowerCase trimmedName
      in (startsWith l ''total'' \<and> (case drop 5 l of [] \<Rightarrow> False | c # _ \<Rightarrow> isSpace c))
         \<or> startsWith l ''noi''
         \<or> startsWith l ''net operating''
         \<or> startsWith l ''operating income''
         \<or> startsWith l ''operating expense'')"

definition amountChars :: "char \<Rightarrow> bool" where
  "amountChars c = (c = CHR '','' \<or> c = CHR ''$'' \<or> c = CHR ''('' \<or> c = CHR '')'')"

text \<open>The loop of \<^verbatim>\<open>parseFinancialStatementCSV\<close> over the lines after the header; it
  carries \<open>currentType\<close>, \<open>rows\<close> and \<open>rawData\<close>. An index of \<open>-1\<close> reads \<^verbatim>\<open>undefined\<close>
  from \<open>values\<close>.\<close>

fun statementLoop ::
  "string list \<Rightarrow> nat option \<Rightarrow> Section option \<Rightarrow> Row list \<times> string list list
   \<Rightarrow> Row list \<times> string list list" where
  "statementLoop [] totalColumnIndex currentType acc = acc"
| "statementLoop (l # rest) totalColumnIndex currentType (rs, raw) =
     (let line = trim l;
          values = parseCSVLine line;
          accountName = orElse (map_option trim (arrayAt values 0)) [];
          trimmedName = trim accountName;
          rawAmount = orElse (case totalColumnIndex of None \<Rightarrow> None
                              | Some i \<Rightarrow> arrayAt values i) [];
          cleanAmount = deleteChars amountChars rawAmount
      in if line = [] then statementLoop rest totalColumnIndex currentType (rs, raw)
         else if accountName = [] then statementLoop rest totalColumnIndex currentType (rs, raw)
         else if toLowerCase trimmedName = ''income''
         then statementLoop rest totalColumnIndex (Some Income) (rs, raw)
         else if toLowerCase trimmedName = ''expense''
         then statementLoop rest totalColumnIndex (Some Expense) (rs, raw)
         else if isSummaryRow trimmedName
         then statementLoop rest totalColumnIndex currentType (rs, raw)
         else if currentType = None
         then statementLoop rest totalColumnIndex currentType (rs, raw)
         else if cleanAmount = [] \<or> isNaN (parseFloat cleanAmount)
         then statementLoop rest totalColumnIndex currentType (rs, raw)
         else statementLoop rest totalColumnIndex currentType
                (rs @ [[(''Type'', if currentType = Some Income then ''Income'' else ''Expense''),
                        (''Name'', trimmedName),
                        (''Amount'', cleanAmount),
                        (''Frequency'', ''monthly''),
                        (''Category'', ''Other''),
                        (''Status'', ''Active'')]],
                 raw @ [values]))"

text \<open>\<^verbatim>\<open>parseFinancialStatementCSV\<close>; reading the header line of an empty array of lines
  raises a \<^verbatim>\<open>TypeError\<close>.\<close>

definition parseFinancialStatementCSV :: "string list \<Rightarrow> error + ParsedCSVData" where
  "parseFinancialStatementCSV lines =
     (case lines of
        [] \<Rightarrow> Inl (Error ''TypeError'')
      | l0 # rest \<Rightarrow>
          (let hs = map trim (parseCSVLine l0);
               totalColumnIndex = findIndex (\<lambda>h. toLowerCase h = ''total'') hs;
               (rs, raw) = statementLoop rest totalColumnIndex None ([], [hs])
           in Inr \<lparr>headers = [''Type'', ''Name'', ''Amount'', ''Frequency'', ''Category'',
                               ''Status''],
                   rows = rs,
                   rawData = raw,
                   format = FinancialStatement,
                   detectedColumns = None,
                   columnMappingConfidence = None\<rparr>))"

definition parseCSV :: "string \<Rightarrow> error + ParsedCSVData" where
  "parseCSV content =
     (let lines = split LF (trim content);
          csvLines = map parseCSVLine lines
      in if lines = [] then Inl (Error ''Empty CSV file'')
         else if csvLines = [] then Inl (Error ''No valid data rows found'')
         else
           (let hs = map trim (hd csvLines);
                dc = detectColumns hs
            in if detectedFormat dc = FinancialStatement then parseFinancialStatementCSV lines
               else if detectedFormat dc = BankStatement
               then Inr (parseBankStatementCSV csvLines hs dc)
               else Inr (parseFlexibleCSV csvLines hs dc)))"

section \<open>Reference definitions for the row mapper\<close>

text \<open>The cells of a raw row that \<^verbatim>\<open>mapRow\<close> offers to the field \<open>Name\<close>: those of the
  columns typed \<open>description\<close> or \<open>name\<close>, in the order of the mapping, a missing cell
  read as the empty string.\<close>

definition nameCells :: "string list \<Rightarrow> ColumnMapping \<Rightarrow> string list" where
  "nameCells rawRow m =
     map (\<lambda>e. orElse (arrayAt rawRow (fst e)) [])
       (filter (\<lambda>e. snd e = CDescription \<or> snd e = CName) m)"

text \<open>The last non-empty string of a list, the empty string when there is none.\<close>

definition lastNonEmpty :: "string list \<Rightarrow> string" where
  "lastNonEmpty vs =
     (if filter (\<lambda>v. v \<noteq> []) vs = [] then [] else last (filter (\<lambda>v. v \<noteq> []) vs))"

text \<open>The data rows that the bank-statement and the flexible extractor keep: the lines after
  the header line that have a non-empty cell, in the order of the file.\<close>

definition dataRows :: "string list list \<Rightarrow> string list list" where
  "dataRows csvLines = filter (\<lambda>rawRow. \<not> list_all (\<lambda>cell. cell = []) rawRow) (drop 1 csvLines)"

section \<open>Basic facts\<close>

lemma getField_setField:
  "getField (setField k v r) k' = (if k' = k then Some v else getField r k')"
  by (induction r) (auto simp: getField_def)

lemma splitOn_not_Nil: "splitOn sep cur s \<noteq> []"
  by (induction s arbitrary: cur) auto

lemma orElse_Some_Nil: "orElse (Some s) [] = s"
  by (simp add: orElse_def)

lemma orElse_None_Nil: "orElse None [] = []"
  by (simp add: orElse_def)

lemma mapRow_snoc: "mapRow rawRow (m @ [e]) hs = mapCell rawRow (mapRow rawRow m hs) e"
  by (simp add: mapRow_def)

lemma mapping_detectColumns:
  "mapping (detectColumns hs) = zip [0 ..< length hs] (map (\<lambda>h. d_type (detectColumnType h)) hs)"
  by (simp add: detectColumns_def Let_def comp_def)

lemma mapping_entry:
  "(i, t) \<in> set (mapping (detectColumns hs))
   \<longleftrightarrow> i < length hs \<and> t = d_type (detectColumnType (hs ! i))"
proof
  assume "(i, t) \<in> set (mapping (detectColumns hs))"
  then show "i < length hs \<and> t = d_type (detectColumnType (hs ! i))"
    by (auto simp: mapping_detectColumns set_zip)
next
  assume a: "i < length hs \<and> t = d_type (detectColumnType (hs ! i))"
  then have "(i, t) = zip [0 ..< length hs] (map (\<lambda>h. d_type (detectColumnType h)) hs) ! i"
    by simp
  moreover have "i < length (zip [0 ..< length hs] (map (\<lambda>h. d_type (detectColumnType h)) hs))"
    using a by simp
  ultimately show "(i, t) \<in> set (mapping (detectColumns hs))"
    unfolding mapping_detectColumns by (metis nth_mem)
qed

section \<open>Format classification\<close>

text \<open>
  Claim C8. A mapping that meets the bank-statement rule (a \<open>date\<close> column, a
  \<open>description\<close> column and an amount-bearing column) and the simple rule (\<open>type\<close>,
  \<open>category\<close>, \<open>name\<close> or \<open>description\<close>, and an amount-bearing column) is classified
  as a bank statement, whatever the headers are: the bank-statement rule is tested first.
\<close>

theorem bank_statement_precedence:
  assumes "CDate \<in> snd ` set m" and "CDescription \<in> snd ` set m"
    and "CAmount \<in> snd ` set m \<or> CDebit \<in> snd ` set m \<or> CCredit \<in> snd ` set m"
    and "(CType \<in> snd ` set m \<or> CCategory \<in> snd ` set m
          \<or> CName \<in> snd ` set m \<or> CDescription \<in> snd ` set m)
         \<and> (CAmount \<in> snd ` set m \<or> CDebit \<in> snd ` set m \<or> CCredit \<in> snd ` set m)"
  shows "detectFileFormat m hs = BankStatement"
  using assms(1-3) by (simp add: detectFileFormat_def Let_def)

text \<open>
  Claim C8, at the headers \<open>Type, Date, Description, Amount\<close>: the detector's mapping
  meets both rules and the file is a bank statement.
\<close>

theorem bank_statement_precedence_witness:
  "mapping (detectColumns [''Type'', ''Date'', ''Description'', ''Amount''])
     = [(0, CType), (1, CDate), (2, CDescription), (3, CAmount)]
   \<and> detectFileFormat [(0, CType), (1, CDate), (2, CDescription), (3, CAmount)]
        [''Type'', ''Date'', ''Description'', ''Amount''] = BankStatement"
proof -
  have m: "mapping (detectColumns [''Type'', ''Date'', ''Description'', ''Amount''])
             = [(0, CType), (1, CDate), (2, CDescription), (3, CAmount)]"
    by code_simp
  have f: "detectFileFormat [(0, CType), (1, CDate), (2, CDescription), (3, CAmount)]
             [''Type'', ''Date'', ''Description'', ''Amount''] = BankStatement"
    by (rule bank_statement_precedence) simp_all
  show ?thesis by (rule conjI [OF m f])
qed

section \<open>Row mapping\<close>





section \<open>Column detection\<close>

lemma scanTypes_total:
  "scanTypes ''total'' COLUMN_ALIASES [] CIgnore 0
   = \<lparr>d_type = CAmount, d_confidence = 100, d_suggestions = [CAmount]\<rparr>"
  by code_simp

text \<open>
  Claim C10. A header whose normalized form is exactly \<open>total\<close> is typed \<open>amount\<close> with
  confidence 100, because \<open>total\<close> is an alias of \<open>amount\<close> and the catalogue reaches
  \<open>amount\<close> before \<open>total\<close>; so the mapping never types that column \<open>total\<close>, and the
  column cannot satisfy the financial-statement rule's test for a \<open>total\<close> column.
\<close>

theorem total_header_typed_amount:
  assumes "i < length hs" and "normalizeHeader (hs ! i) = ''total''"
  shows "map_of (mapping (detectColumns hs)) i = Some CAmount
         \<and> d_confidence (detectColumnType (hs ! i)) = 100
         \<and> (i, CTotal) \<notin> set (mapping (detectColumns hs))"
proof -
  have det: "detectColumnType (hs ! i)
             = \<lparr>d_type = CAmount, d_confidence = 100, d_suggestions = [CAmount]\<rparr>"
    using assms(2) by (simp add: detectColumnType_def scanTypes_total)
  have dist: "distinct (map fst (mapping (detectColumns hs)))"
    by (simp add: mapping_detectColumns)
  have "(i, CAmount) \<in> set (mapping (detectColumns hs))"
    using assms(1) det by (simp add: mapping_entry)
  then have "map_of (mapping (detectColumns hs)) i = Some CAmount"
    using dist by (rule map_of_is_SomeI[rotated])
  moreover have "(i, CTotal) \<notin> set (mapping (detectColumns hs))"
    using det by (simp add: mapping_entry)
  ultimately show ?thesis using det by simp
qed

text \<open>
  Claim C10, at the headers \<open>Item, Total\<close>: the second column is typed \<open>amount\<close>, no
  column is typed \<open>total\<close>, and the file is not classified as a financial statement.
\<close>

theorem total_header_typed_amount_witness:
  "(1::nat) < length [''Item'', ''Total'']
   \<and> normalizeHeader ([''Item'', ''Total''] ! 1) = ''total''
   \<and> map_of (mapping (detectColumns [''Item'', ''Total''])) 1 = Some CAmount
   \<and> d_confidence (detectColumnType ([''Item'', ''Total''] ! 1)) = 100
   \<and> (1, CTotal) \<notin> set (mapping (detectColumns [''Item'', ''Total'']))
   \<and> detectedFormat (detectColumns [''Item'', ''Total'']) \<noteq> FinancialStatement"
proof -
  have h1: "(1::nat) < length [''Item'', ''Total'']" by simp
  have h2: "normalizeHeader ([''Item'', ''Total''] ! 1) = ''total''" by code_simp
  have f: "detectedFormat (detectColumns [''Item'', ''Total'']) \<noteq> FinancialStatement"
    by code_simp
  show ?thesis using h1 h2 f total_header_typed_amount [OF h1 h2] by simp
qed

lemma foldl_addAliasScore:
  "foldl (addAliasScore n) acc as = acc + sum_list (map (aliasScore n) as)"
  by (induction as arbitrary: acc) (auto simp: addAliasScore_def aliasScore_def)

text \<open>
  Claim C5 reads: the detector's match score of a header for a column type is the maximum
  of the scores of the type's aliases. It is not: for the header \<open>Transaction\<close> and the
  type \<open>date\<close> the match score is 160, and the largest alias score is 60.
\<close>

theorem matchScore_max_counterexample:
  "matchScore (normalizeHeader ''Transaction'') (aliasesOf CDate) = 160
   \<and> Math_max (map (aliasScore (normalizeHeader ''Transaction'')) (aliasesOf CDate)) = Some 60"
  by code_simp

text \<open>
  Claim C5, amended. The match score that \<^verbatim>\<open>detectColumnType\<close> computes for a column type
  is the sum, over the type's aliases, of the alias scores (100 for an exact match, 80
  when the normalized header contains the alias, 60 when the alias contains it, 40 when
  the two are similar, 0 otherwise).
\<close>

theorem matchScore_is_sum:
  "matchScore normalized aliases = sum_list (map (aliasScore normalized) aliases)"
  by (simp add: matchScore_def foldl_addAliasScore)

text \<open>
  Claim C2 reads: the confidence of \<^verbatim>\<open>detectColumns\<close> lies between 0 and 100 and is the
  rounded mean of the per-column confidences. The code multiplies the mean by 100 before
  rounding: for the headers \<open>Date, Description, Amount\<close>, each detected with confidence
  100, the result is 10000.
\<close>

theorem confidence_exceeds_100:
  "map (\<lambda>h. d_confidence (detectColumnType h)) [''Date'', ''Description'', ''Amount'']
     = [100, 100, 100]
   \<and> confidence (detectColumns [''Date'', ''Description'', ''Amount'']) = Some 10000"
  by code_simp

section \<open>Name and description columns\<close>

lemma lastNonEmpty_snoc:
  "lastNonEmpty (vs @ [v]) = (if v \<noteq> [] then v else lastNonEmpty vs)"
  by (simp add: lastNonEmpty_def)

lemma lastNonEmpty_Nil: "lastNonEmpty [] = []"
  by (simp add: lastNonEmpty_def)

lemma nameCells_snoc:
  "nameCells rawRow (m @ [e]) =
     (if snd e = CDescription \<or> snd e = CName
      then nameCells rawRow m @ [orElse (arrayAt rawRow (fst e)) []]
      else nameCells rawRow m)"
  by (simp add: nameCells_def)

text \<open>
  Claim C6 reads: of the columns typed \<open>description\<close> or \<open>name\<close> the first non-empty
  value wins. It does not: under the headers \<open>Item Name, Description\<close> the detector
  types the columns \<open>name\<close> and \<open>description\<close>, and the row \<open>Rent, Monthly rent\<close>
  gets the name \<open>Monthly rent\<close>, the later value.
\<close>

theorem name_first_wins_counterexample:
  "mapping (detectColumns [''Item Name'', ''Description'']) = [(0, CName), (1, CDescription)]
   \<and> mapRow [''Rent'', ''Monthly rent''] [(0, CName), (1, CDescription)]
        [''Item Name'', ''Description'']
      = [(''Name'', ''Monthly rent'')]"
  by code_simp

text \<open>
  Claim C6, amended. Columns typed \<open>description\<close> and \<open>name\<close> both write the field
  \<open>Name\<close>, and the last non-empty value wins: the field holds the last non-empty cell
  of those columns, the empty string when all of them are empty, and is absent when the
  mapping has no such column. An empty later cell never overwrites a non-empty name.
\<close>

theorem name_last_non_empty_wins:
  "getField (mapRow rawRow m hs) ''Name'' =
     (if nameCells rawRow m = [] then None else Some (lastNonEmpty (nameCells rawRow m)))"
proof (induction m rule: rev_induct)
  case Nil
  show ?case by (simp add: mapRow_def nameCells_def getField_def)
next
  case (snoc e m)
  show ?case
  proof (cases "snd e")
    case CDescription
    then show ?thesis
      using snoc
      by (simp add: mapRow_snoc nameCells_snoc mapCell_def Let_def getField_setField
          lastNonEmpty_snoc lastNonEmpty_Nil orElse_Some_Nil orElse_None_Nil)
  next
    case CName
    then show ?thesis
      using snoc
      by (simp add: mapRow_snoc nameCells_snoc mapCell_def Let_def getField_setField
          lastNonEmpty_snoc lastNonEmpty_Nil orElse_Some_Nil orElse_None_Nil)
  qed (use snoc in \<open>simp_all add: mapRow_snoc nameCells_snoc mapCell_def Let_def
        getField_setField\<close>)
qed


section \<open>Bank statements\<close>

lemma parseFloat_zero: "parseFloat ''0'' = Fin False 0 0"
  by code_simp

lemma positive_parse_truthy:
  "positive (parseFloat (orElse x ''0'')) \<Longrightarrow> truthy x"
  by (cases x) (auto simp: orElse_def truthy_def parseFloat_zero positive_def split: if_splits)

lemma getField_bankDefaults_Type:
  "getField r ''Type'' = Some ''Expense'' \<or> getField r ''Type'' = Some ''Income''
   \<Longrightarrow> getField (bankDefaults r) ''Type'' = getField r ''Type''"
  by (auto simp: bankDefaults_def setDefault_def getField_setField truthy_def)

lemma getField_bankDefaults_Amount:
  "getField (bankDefaults r) ''Amount'' = getField r ''Amount''"
  by (simp add: bankDefaults_def setDefault_def getField_setField)

text \<open>The body of the extractor's loop, for one raw row.\<close>

lemma bankRow_debit_credit:
  assumes "r = mapRow rawRow m hs"
    and "debit = parseFloat (orElse (getField r ''Debit'') ''0'')"
    and "credit = parseFloat (orElse (getField r ''Credit'') ''0'')"
  shows "(positive debit \<longrightarrow>
            getField (bankRow rawRow m hs) ''Type'' = Some ''Expense''
            \<and> getField (bankRow rawRow m hs) ''Amount'' = Some (String debit))
         \<and> (\<not> positive debit \<and> positive credit \<longrightarrow>
            getField (bankRow rawRow m hs) ''Type'' = Some ''Income''
            \<and> getField (bankRow rawRow m hs) ''Amount'' = Some (String credit))"
proof (intro conjI impI)
  assume p: "positive debit"
  then have t: "truthy (getField r ''Debit'')"
    using assms(2) positive_parse_truthy by simp
  have dc: "debitCredit r = setField ''Amount'' (String debit) (setField ''Type'' ''Expense'' r)"
    using p t assms(2) by (simp add: debitCredit_def Let_def)
  show "getField (bankRow rawRow m hs) ''Type'' = Some ''Expense''"
    using dc assms(1)
    by (simp add: bankRow_def getField_bankDefaults_Type getField_setField)
  show "getField (bankRow rawRow m hs) ''Amount'' = Some (String debit)"
    using dc assms(1)
    by (simp add: bankRow_def getField_bankDefaults_Amount getField_setField)
next
  assume p: "\<not> positive debit \<and> positive credit"
  then have t: "truthy (getField r ''Credit'')"
    using assms(3) positive_parse_truthy by simp
  have dc: "debitCredit r = setField ''Amount'' (String credit) (setField ''Type'' ''Income'' r)"
    using p t assms(2,3) by (simp add: debitCredit_def Let_def)
  show "getField (bankRow rawRow m hs) ''Type'' = Some ''Income''"
    using dc assms(1)
    by (simp add: bankRow_def getField_bankDefaults_Type getField_setField)
  show "getField (bankRow rawRow m hs) ''Amount'' = Some (String credit)"
    using dc assms(1)
    by (simp add: bankRow_def getField_bankDefaults_Amount getField_setField)
qed

text \<open>The loop of the extractor appends one row for every line that has a non-empty
  cell.\<close>

lemma bankLoop_rows:
  "bankLoop ls m hs (rs, raw) =
     (rs @ map (\<lambda>rawRow. bankRow rawRow m hs)
             (filter (\<lambda>rawRow. \<not> list_all (\<lambda>cell. cell = []) rawRow) ls),
      raw @ filter (\<lambda>rawRow. \<not> list_all (\<lambda>cell. cell = []) rawRow) ls)"
  by (induction ls arbitrary: rs raw) auto

lemma rows_parseBankStatementCSV:
  "rows (parseBankStatementCSV csvLines hs dc)
   = map (\<lambda>rawRow. bankRow rawRow (mapping dc) hs) (dataRows csvLines)"
  by (simp add: parseBankStatementCSV_def bankLoop_rows dataRows_def)

lemma parseCSV_bank_statement:
  assumes "csvLines = map parseCSVLine (split LF (trim content))"
    and "hs = map trim (hd csvLines)"
    and "detectedFormat (detectColumns hs) = BankStatement"
  shows "parseCSV content = Inr (parseBankStatementCSV csvLines hs (detectColumns hs))"
  using assms by (simp add: parseCSV_def Let_def split_def splitOn_not_Nil)

text \<open>
  Claim C7. The bank-statement extractor returns one row for every data row of the file,
  in order. Let \<open>r\<close> be the mapped form of the \<open>j\<close>-th data row, and \<open>debit\<close> and \<open>credit\<close>
  the numbers parsed from its fields \<open>Debit\<close> and \<open>Credit\<close> (an empty or absent field
  parses as 0). If \<open>debit > 0\<close>, the \<open>j\<close>-th returned row has type \<open>Expense\<close> and the debit
  as its amount; otherwise, if \<open>credit > 0\<close>, it has type \<open>Income\<close> and the credit as its
  amount.
\<close>

theorem debit_credit_inference:
  assumes "j < length (dataRows csvLines)"
    and "r = mapRow (dataRows csvLines ! j) (mapping dc) hs"
    and "debit = parseFloat (orElse (getField r ''Debit'') ''0'')"
    and "credit = parseFloat (orElse (getField r ''Credit'') ''0'')"
    and "out = rows (parseBankStatementCSV csvLines hs dc)"
  shows "length out = length (dataRows csvLines)
         \<and> (positive debit \<longrightarrow>
              getField (out ! j) ''Type'' = Some ''Expense''
              \<and> getField (out ! j) ''Amount'' = Some (String debit))
         \<and> (\<not> positive debit \<and> positive credit \<longrightarrow>
              getField (out ! j) ''Type'' = Some ''Income''
              \<and> getField (out ! j) ''Amount'' = Some (String credit))"
proof -
  have len: "length out = length (dataRows csvLines)"
    using assms(5) by (simp add: rows_parseBankStatementCSV)
  have nth: "out ! j = bankRow (dataRows csvLines ! j) (mapping dc) hs"
    using assms(1,5) by (simp add: rows_parseBankStatementCSV)
  show ?thesis
    using len bankRow_debit_credit [OF assms(2) assms(3) assms(4)]
    unfolding nth by blast
qed

text \<open>
  Claim C7, on the file with the header \<open>Date,Description,Debit,Credit\<close> and the two rows
  of the claim: the file is parsed by the bank-statement extractor; debit 50 and credit 0
  give an expense of amount \<open>50\<close>, debit 0 and credit 200 give an income of amount \<open>200\<close>.
\<close>

theorem debit_credit_inference_witness:
  "parseCSV (''Date,Description,Debit,Credit'' @ [LF] @ ''2025-01-01,Shop,50,0'' @ [LF]
             @ ''2025-01-02,Pay,0,200'')
     = Inr (parseBankStatementCSV
              [[''Date'', ''Description'', ''Debit'', ''Credit''],
               [''2025-01-01'', ''Shop'', ''50'', ''0''],
               [''2025-01-02'', ''Pay'', ''0'', ''200'']]
              [''Date'', ''Description'', ''Debit'', ''Credit'']
              (detectColumns [''Date'', ''Description'', ''Debit'', ''Credit'']))
   \<and> length (rows (parseBankStatementCSV
              [[''Date'', ''Description'', ''Debit'', ''Credit''],
               [''2025-01-01'', ''Shop'', ''50'', ''0''],
               [''2025-01-02'', ''Pay'', ''0'', ''200'']]
              [''Date'', ''Description'', ''Debit'', ''Credit'']
              (detectColumns [''Date'', ''Description'', ''Debit'', ''Credit'']))) = 2
   \<and> positive (parseFloat ''50'')
   \<and> getField (rows (parseBankStatementCSV
              [[''Date'', ''Description'', ''Debit'', ''Credit''],
               [''2025-01-01'', ''Shop'', ''50'', ''0''],
               [''2025-01-02'', ''Pay'', ''0'', ''200'']]
              [''Date'', ''Description'', ''Debit'', ''Credit'']
              (detectColumns [''Date'', ''Description'', ''Debit'', ''Credit''])) ! 0)
        ''Type'' = Some ''Expense''
   \<and> getField (rows (parseBankStatementCSV
              [[''Date'', ''Description'', ''Debit'', ''Credit''],
               [''2025-01-01'', ''Shop'', ''50'', ''0''],
               [''2025-01-02'', ''Pay'', ''0'', ''200'']]
              [''Date'', ''Description'', ''Debit'', ''Credit'']
              (detectColumns [''Date'', ''Description'', ''Debit'', ''Credit''])) ! 0)
        ''Amount'' = Some ''50''
   \<and> \<not> positive (parseFloat ''0'') \<and> positive (parseFloat ''200'')
   \<and> getField (rows (parseBankStatementCSV
              [[''Date'', ''Description'', ''Debit'', ''Credit''],
               [''2025-01-01'', ''Shop'', ''50'', ''0''],
               [''2025-01-02'', ''Pay'', ''0'', ''200'']]
              [''Date'', ''Description'', ''Debit'', ''Credit'']
              (detectColumns [''Date'', ''Description'', ''Debit'', ''Credit''])) ! 1)
        ''Type'' = Some ''Income''
   \<and> getField (rows (parseBankStatementCSV
              [[''Date'', ''Description'', ''Debit'', ''Credit''],
               [''2025-01-01'', ''Shop'', ''50'', ''0''],
               [''2025-01-02'', ''Pay'', ''0'', ''200'']]
              [''Date'', ''Description'', ''Debit'', ''Credit'']
              (detectColumns [''Date'', ''Description'', ''Debit'', ''Credit''])) ! 1)
        ''Amount'' = Some ''200''"
  (is "parseCSV ?content = Inr (parseBankStatementCSV ?csvLines ?hs ?dc)
       \<and> length ?out = 2 \<and> _ \<and> ?t0 \<and> ?a0 \<and> _ \<and> _ \<and> ?t1 \<and> ?a1")
proof -
  have lines: "map parseCSVLine (split LF (trim ?content)) = ?csvLines"
    by code_simp
  have fmt: "detectedFormat ?dc = BankStatement"
    by code_simp
  have hs: "map trim (hd ?csvLines) = ?hs"
    by code_simp
  have parsed: "parseCSV ?content = Inr (parseBankStatementCSV ?csvLines ?hs ?dc)"
    by (rule parseCSV_bank_statement [OF lines [symmetric] hs [symmetric] fmt])
  have dr: "dataRows ?csvLines
            = [[''2025-01-01'', ''Shop'', ''50'', ''0''], [''2025-01-02'', ''Pay'', ''0'', ''200'']]"
    by code_simp
  have d0: "orElse (getField (mapRow [''2025-01-01'', ''Shop'', ''50'', ''0''] (mapping ?dc) ?hs)
              ''Debit'') ''0'' = ''50''"
    by code_simp
  have d1: "orElse (getField (mapRow [''2025-01-02'', ''Pay'', ''0'', ''200''] (mapping ?dc) ?hs)
              ''Debit'') ''0'' = ''0''"
    by code_simp
  have c1: "orElse (getField (mapRow [''2025-01-02'', ''Pay'', ''0'', ''200''] (mapping ?dc) ?hs)
              ''Credit'') ''0'' = ''200''"
    by code_simp
  have p50: "positive (parseFloat ''50'')" by code_simp
  have p0: "\<not> positive (parseFloat ''0'')" by code_simp
  have p200: "positive (parseFloat ''200'')" by code_simp
  have s50: "String (parseFloat ''50'') = ''50''" by code_simp
  have s200: "String (parseFloat ''200'') = ''200''" by code_simp
  have j0: "0 < length (dataRows ?csvLines)" by (simp add: dr)
  have j1: "1 < length (dataRows ?csvLines)" by (simp add: dr)
  have n0: "dataRows ?csvLines ! 0 = [''2025-01-01'', ''Shop'', ''50'', ''0'']"
    by (simp add: dr)
  have n1: "dataRows ?csvLines ! 1 = [''2025-01-02'', ''Pay'', ''0'', ''200'']"
    by (simp add: dr)
  have len: "length (dataRows ?csvLines) = 2" by (simp add: dr)
  have e: "length ?out = 2 \<and> ?t0 \<and> ?a0"
    using debit_credit_inference [OF j0 refl refl refl refl, of ?hs ?dc] p50
    unfolding n0 d0 s50 len by blast
  have i: "?t1 \<and> ?a1"
    using debit_credit_inference [OF j1 refl refl refl refl, of ?hs ?dc] p0 p200
    unfolding n1 d1 c1 s200 len by blast
  show ?thesis using parsed e i p50 p0 p200 by blast
qed

text \<open>The numbers of the extractor are doubles: a literal beyond 53 bits of precision is
  rounded when it is parsed, and printed as the double it became.\<close>

lemma parseFloat_rounds_to_double:
  "String (parseFloat ''9007199254740993'') = ''9007199254740992''"
  by code_simp

section \<open>Parsing a file\<close>

lemma parseCSV_unknown_is_simple:
  assumes "detectedFormat (detectColumns (map trim (hd (map parseCSVLine (split LF (trim content))))))
           = Unknown"
  shows "\<exists>d. parseCSV content = Inr d \<and> format d = Simple"
  using assms
  by (simp add: parseCSV_def Let_def split_def splitOn_not_Nil parseFlexibleCSV_def
      split: prod.splits)

text \<open>
  Claim C3 reads: when the detected format is \<open>unknown\<close>, parsing raises nothing and the
  returned dataset reports the format \<open>unknown\<close>. On the file with the header \<open>Amount\<close>
  and the row \<open>5\<close> the detector answers \<open>unknown\<close> and parsing raises nothing, but the
  dataset reports the format \<open>simple\<close>; \<open>unknown\<close> survives only inside the field
  \<open>detectedColumns\<close>.
\<close>

theorem parseCSV_unknown_reported_simple:
  "parseCSV (''Amount'' @ [LF] @ ''5'') =
     Inr \<lparr>headers = [''Amount''],
          rows = [[(''Amount'', ''5'')]],
          rawData = [[''Amount''], [''5'']],
          format = Simple,
          detectedColumns =
            Some \<lparr>mapping = [(0, CAmount)], confidence = Some 10000,
                  detectedFormat = Unknown, suggestions = [(0, [CAmount])]\<rparr>,
          columnMappingConfidence = Some (Some 10000)\<rparr>"
  by code_simp

text \<open>
  Claim C1 reads: a line item of a financial statement yields one row per month column
  with a non-zero value, dated the first of that month. On the statement with the month
  columns \<open>Jan 2025, Feb 2025, Mar 2025\<close> and the income line \<open>Salary\<close> of 5000 a
  month, the parser returns one row, whose amount is the cell of the \<open>Total\<close> column and
  which carries no date.
\<close>

theorem statement_one_row_per_line_item:
  "parseCSV (''Account Name,Jan 2025,Feb 2025,Mar 2025,Total'' @ [LF] @ ''Income'' @ [LF]
             @ ''Salary,5000,5000,5000,15000'') =
     Inr \<lparr>headers = [''Type'', ''Name'', ''Amount'', ''Frequency'', ''Category'', ''Status''],
          rows = [[(''Type'', ''Income''), (''Name'', ''Salary''), (''Amount'', ''15000''),
                   (''Frequency'', ''monthly''), (''Category'', ''Other''),
                   (''Status'', ''Active'')]],
          rawData = [[''Account Name'', ''Jan 2025'', ''Feb 2025'', ''Mar 2025'', ''Total''],
                     [''Salary'', ''5000'', ''5000'', ''5000'', ''15000'']],
          format = FinancialStatement,
          detectedColumns = None,
          columnMappingConfidence = None\<rparr>"
  by code_simp

text \<open>
  Claim C4 reads: in the financial-statement extractor a cell in parentheses is a negative
  number, \<open>(500)\<close> parsing to \<open>-500\<close>. On the statement with the expense line
  \<open>Refund,(500),0,(500)\<close> the parser deletes the parentheses and returns the amount
  \<open>500\<close>, without a sign.
\<close>

theorem statement_parentheses_not_negated:
  "parseCSV (''Account,Jan 2025,Feb 2025,Total'' @ [LF] @ ''Expense'' @ [LF]
             @ ''Refund,(500),0,(500)'') =
     Inr \<lparr>headers = [''Type'', ''Name'', ''Amount'', ''Frequency'', ''Category'', ''Status''],
          rows = [[(''Type'', ''Expense''), (''Name'', ''Refund''), (''Amount'', ''500''),
                   (''Frequency'', ''monthly''), (''Category'', ''Other''),
                   (''Status'', ''Active'')]],
          rawData = [[''Account'', ''Jan 2025'', ''Feb 2025'', ''Total''],
                     [''Refund'', ''(500)'', ''0'', ''(500)'']],
          format = FinancialStatement,
          detectedColumns = None,
          columnMappingConfidence = None\<rparr>"
  by code_simp


end
